theory Spec2Isabelle
  imports Main
begin

section \<open>Docker utilities of the evaluation harness\<close>

text \<open>
  A shallow embedding of \<^verbatim>\<open>swebench/harness/docker_utils.py\<close>. Strings are
  \<^typ>\<open>string\<close>, Python sets are HOL sets, and every call that leaves the module (the
  engine client, the local file system, the logger, \<^verbatim>\<open>print\<close>) is recorded as an
  event of a trace, so that "nothing was printed" and "the engine was not called" are
  statements about that trace.
\<close>

subsection \<open>The tier predicate\<close>

text \<open>\<^verbatim>\<open>str.startswith(prefix)\<close>.\<close>

definition startswith :: "string \<Rightarrow> string \<Rightarrow> bool" where
  "startswith s pre = (take (length pre) s = pre)"

text \<open>
  \<^verbatim>\<open>should_remove(image_name, cache, clean, prior_images)\<close>: an
  \<^verbatim>\<open>if/elif/elif\<close> chain on the prefix of the name; every branch that does not
  return falls through to the final \<^verbatim>\<open>return False\<close>.
\<close>

definition should_remove :: "string \<Rightarrow> string \<Rightarrow> bool \<Rightarrow> string set \<Rightarrow> bool" where
  "should_remove image_name cache clean prior_images =
     (let existed_before = (image_name \<in> prior_images) in
      if startswith image_name ''sweb.base'' then
        (if cache \<in> {''none''} \<and> (clean \<or> \<not> existed_before) then True else False)
      else if startswith image_name ''sweb.env'' then
        (if cache \<in> {''none'', ''base''} \<and> (clean \<or> \<not> existed_before) then True else False)
      else if startswith image_name ''sweb.eval'' then
        (if cache \<in> {''none'', ''base'', ''env''} \<and> (clean \<or> \<not> existed_before) then True else False)
      else False)"

subsection \<open>Errors, events and collaborators\<close>

text \<open>
  Exceptions are values. \<open>ValueError\<close> and \<open>TimeoutError\<close> are the ones this
  module raises itself; \<open>KeyError\<close> is raised by a dictionary subscript; \<open>Raised\<close>
  stands for any exception of the engine client or of the operating system, with its
  message.
\<close>

datatype error = ValueError string | KeyError string | TimeoutError string | Raised string

text \<open>\<^verbatim>\<open>str(e)\<close>, as the f-strings of the log messages render an exception.\<close>

fun str_error :: "error \<Rightarrow> string" where
  "str_error (ValueError m) = m"
| "str_error (KeyError k) = [CHR 0x27] @ k @ [CHR 0x27]"
| "str_error (TimeoutError m) = m"
| "str_error (Raised m) = m"

text \<open>
  Every effect that leaves the module is an event; a run is the list of its events in
  the order of the calls. A call that raises is recorded too: it was made.
\<close>

datatype event =
    Print string
  | LoggerInfo string
  | ImagesRemove string
  | ContainerStop string
  | InspectContainer string
  | OsKill int
  | ContainerRemove string
  | ExecRun string string
  | PutArchive string string string
  | TarAdd string string string
  | ReadFile string
  | Unlink string

text \<open>
  The result of a procedure: the events it caused and the exception it raised, if any
  (\<open>None\<close>: it returned).
\<close>

type_synonym result = "event list \<times> error option"

text \<open>
  The engine client. \<open>images_remove\<close> is the outcome of
  \<^verbatim>\<open>client.images.remove(image_id, force=True)\<close>; \<open>api_inspect_container\<close> is
  \<^verbatim>\<open>client.api.inspect_container(container_id)\<close>, a dictionary of dictionaries of
  which the code reads \<^verbatim>\<open>["State"].get("Pid", 0)\<close>.
\<close>

record client =
  images_remove :: "string \<Rightarrow> error option"
  api_inspect_container :: "string \<Rightarrow> error + (string \<rightharpoonup> (string \<rightharpoonup> int))"

text \<open>
  A container handle with the outcomes of its methods: \<^verbatim>\<open>stop(timeout=15)\<close>,
  \<^verbatim>\<open>remove(force=True)\<close>, \<^verbatim>\<open>exec_run(cmd)\<close> (its return value is never read)
  and \<^verbatim>\<open>put_archive(path, data)\<close>. A null handle is \<open>None\<close> of
  \<open>container option\<close>.
\<close>

record container =
  container_id :: string
  container_name :: string
  container_stop :: "error option"
  container_remove :: "error option"
  exec_run :: "string \<Rightarrow> error option"
  put_archive :: "string \<Rightarrow> string \<Rightarrow> error option"

text \<open>
  The host: \<^verbatim>\<open>os.kill(pid, SIGKILL)\<close>, \<^verbatim>\<open>traceback.format_exc()\<close>, the
  \<^verbatim>\<open>pathlib\<close> operations on the source and destination paths (paths are their
  strings), and the local file operations on the temporary archive.
\<close>

record host =
  os_kill :: "int \<Rightarrow> error option"
  format_exc :: "error \<Rightarrow> string"
  with_suffix :: "string \<Rightarrow> string \<Rightarrow> error + string"
  path_name :: "string \<Rightarrow> string"
  path_parent :: "string \<Rightarrow> string"
  tar_add :: "string \<Rightarrow> string \<Rightarrow> string \<Rightarrow> error option"
  read_bytes :: "string \<Rightarrow> error + string"
  unlink :: "string \<Rightarrow> error option"

subsection \<open>The logging modes\<close>

text \<open>
  The \<^verbatim>\<open>logger\<close> argument: a falsy value (\<^verbatim>\<open>None\<close>), the string
  \<^verbatim>\<open>"quiet"\<close>, or a logger object. Both cleanup procedures bind
  \<^verbatim>\<open>log_info\<close>, \<^verbatim>\<open>log_error\<close> and \<^verbatim>\<open>raise_error\<close> from it in the same way;
  with a logger object both go to \<^verbatim>\<open>logger.info\<close>.
\<close>

datatype logger = NoLogger | Quiet | RealLogger

fun log_info :: "logger \<Rightarrow> string \<Rightarrow> event list" where
  "log_info NoLogger x = [Print x]"
| "log_info Quiet x = []"
| "log_info RealLogger x = [LoggerInfo x]"

fun log_error :: "logger \<Rightarrow> string \<Rightarrow> event list" where
  "log_error NoLogger x = [Print x]"
| "log_error Quiet x = []"
| "log_error RealLogger x = [LoggerInfo x]"

fun raise_error :: "logger \<Rightarrow> bool" where
  "raise_error NoLogger = True"
| "raise_error Quiet = True"
| "raise_error RealLogger = False"

text \<open>What a run wrote, to standard output or to the logger.\<close>

fun is_output :: "event \<Rightarrow> bool" where
  "is_output (Print x) = True"
| "is_output (LoggerInfo x) = True"
| "is_output ev = False"

definition outputs :: "event list \<Rightarrow> event list" where
  "outputs tr = filter is_output tr"

subsection \<open>Image cleanup\<close>

definition cleanup_image :: "host \<Rightarrow> client \<Rightarrow> string \<Rightarrow> bool \<Rightarrow> logger \<Rightarrow> result" where
  "cleanup_image h client image_id rm_image logger =
     (if rm_image then
        (let tr = log_info logger (''Attempting to remove image '' @ image_id @ ''...'') @
                  [ImagesRemove image_id]
         in case images_remove client image_id of
              None \<Rightarrow> (tr @ log_info logger (''Image '' @ image_id @ '' removed.''), None)
            | Some e \<Rightarrow>
                if raise_error logger then (tr, Some e)
                else (tr @ log_error logger
                        (''Failed to remove image '' @ image_id @ '': '' @ str_error e @
                         [CHR 0x0A] @ format_exc h e), None))
      else ([], None))"

subsection \<open>Container cleanup\<close>

text \<open>\<^verbatim>\<open>str\<close> of an integer, for the process id in the messages.\<close>

function str_nat :: "nat \<Rightarrow> string" where
  "str_nat n = (if n < 10 then [''0123456789'' ! n]
                else str_nat (n div 10) @ [''0123456789'' ! (n mod 10)])"
  by pat_completeness auto
termination
  by (relation "measure (\<lambda>n. n)") auto

definition str_int :: "int \<Rightarrow> string" where
  "str_int i = (if i < 0 then ''-'' @ str_nat (nat (- i)) else str_nat (nat i))"

text \<open>
  The body of the inner \<^verbatim>\<open>try\<close>: inspect the container, read the process id (0 when
  the key is absent) and kill the process when the id is positive.
\<close>

definition force_kill :: "host \<Rightarrow> client \<Rightarrow> container \<Rightarrow> logger \<Rightarrow> result" where
  "force_kill h client c logger =
     (let tr = [InspectContainer (container_id c)]
      in case api_inspect_container client (container_id c) of
           Inl e2 \<Rightarrow> (tr, Some e2)
         | Inr container_info \<Rightarrow>
             (case container_info ''State'' of
                None \<Rightarrow> (tr, Some (KeyError ''State''))
              | Some state \<Rightarrow>
                  (let pid = (case state ''Pid'' of None \<Rightarrow> 0 | Some p \<Rightarrow> p)
                   in if pid > 0 then
                        (let tr1 = tr @ log_info logger
                                     (''Forcefully killing container '' @ container_name c @
                                      '' with PID '' @ str_int pid @ ''...'') @ [OsKill pid]
                         in case os_kill h pid of
                              None \<Rightarrow> (tr1, None)
                            | Some e2 \<Rightarrow> (tr1, Some e2))
                      else (tr @ log_error logger
                              (''PID for container '' @ container_name c @ '': '' @
                               str_int pid @ '' - not killing.''), None))))"

text \<open>
  The first \<^verbatim>\<open>try\<close> statement: the graceful stop, and in its handler the kill
  fallback with a handler of its own, which re-raises when \<^verbatim>\<open>raise_error\<close> is set.
\<close>

definition stop_or_kill :: "host \<Rightarrow> client \<Rightarrow> container \<Rightarrow> logger \<Rightarrow> result" where
  "stop_or_kill h client c logger =
     (let tr = log_info logger (''Attempting to stop container '' @ container_name c @ ''...'') @
               [ContainerStop (container_id c)]
      in case container_stop c of
           None \<Rightarrow> (tr, None)
         | Some e \<Rightarrow>
             (let tr1 = tr @ log_error logger
                          (''Failed to stop container '' @ container_name c @ '': '' @
                           str_error e @ ''. Trying to forcefully kill...'')
              in case force_kill h client c logger of
                   (tk, None) \<Rightarrow> (tr1 @ tk, None)
                 | (tk, Some e2) \<Rightarrow>
                     if raise_error logger then (tr1 @ tk, Some e2)
                     else (tr1 @ tk @ log_error logger
                             (''Failed to forcefully kill container '' @ container_name c @
                              '': '' @ str_error e2 @ [CHR 0x0A] @ format_exc h e2), None)))"

definition cleanup_container :: "host \<Rightarrow> client \<Rightarrow> container option \<Rightarrow> logger \<Rightarrow> result" where
  "cleanup_container h client container logger =
     (case container of
        None \<Rightarrow> ([], None)
      | Some c \<Rightarrow>
          (case stop_or_kill h client c logger of
             (tr, Some e2) \<Rightarrow> (tr, Some e2)
           | (tr, None) \<Rightarrow>
               (let tr1 = tr @ log_info logger
                            (''Attempting to remove container '' @ container_name c @ ''...'') @
                          [ContainerRemove (container_id c)]
                in case container_remove c of
                     None \<Rightarrow>
                       (tr1 @ log_info logger (''Container '' @ container_name c @ '' removed.''),
                        None)
                   | Some e \<Rightarrow>
                       if raise_error logger then (tr1, Some e)
                       else (tr1 @ log_error logger
                               (''Failed to remove container '' @ container_name c @ '': '' @
                                str_error e @ [CHR 0x0A] @ format_exc h e), None))))"

subsection \<open>Execution with a timeout\<close>

text \<open>
  The worker thread runs \<^verbatim>\<open>run_command\<close>, which writes the variables
  \<^verbatim>\<open>exec_result\<close> and \<^verbatim>\<open>exception\<close> that the caller reads. What the caller
  can see of it is one of five states: the dispatch has not come back yet; the result has
  been stored and the thread is about to end; the thread has ended with the result stored;
  the handler has stored the exception and the thread is about to end; the thread has
  ended with the exception stored.
\<close>

datatype worker = Running | Assigned string | Finished string | Caught error | Failed error












subsection \<open>Copying a file into a container\<close>

text \<open>
  \<^verbatim>\<open>posixpath.dirname\<close>: everything up to and including the last slash, and, unless
  that is made of slashes only, with the trailing slashes stripped. \<open>rfind\<close> is
  \<^verbatim>\<open>str.rfind\<close> (-1 when the character does not occur), \<open>rstrip\<close> is
  \<^verbatim>\<open>str.rstrip\<close> of one character.
\<close>

definition rfind :: "string \<Rightarrow> char \<Rightarrow> int" where
  "rfind s c =
     (if c \<in> set s then int (length s) - 1 - int (length (takeWhile (\<lambda>x. x \<noteq> c) (rev s)))
      else - 1)"

definition rstrip :: "string \<Rightarrow> char \<Rightarrow> string" where
  "rstrip s c = rev (dropWhile (\<lambda>x. x = c) (rev s))"

definition dirname :: "string \<Rightarrow> string" where
  "dirname p =
     (let i = rfind p CHR ''/'' + 1;
          head = take (nat i) p
      in if head \<noteq> [] \<and> head \<noteq> replicate (length head) CHR ''/''
         then rstrip head CHR ''/'' else head)"

text \<open>
  A sequence of calls, each with the event it causes and its outcome: the calls are made
  in order up to the first that raises.
\<close>

fun run_steps :: "(event \<times> error option) list \<Rightarrow> result" where
  "run_steps [] = ([], None)"
| "run_steps ((ev, Some e) # rest) = ([ev], Some e)"
| "run_steps ((ev, None) # rest) = (case run_steps rest of (tr, r) \<Rightarrow> (ev # tr, r))"

definition copy_to_container :: "host \<Rightarrow> container \<Rightarrow> string \<Rightarrow> string \<Rightarrow> result" where
  "copy_to_container h c src dst =
     (if dirname dst = [] then
        ([], Some (ValueError
                     (''Destination path parent directory cannot be empty!, dst: '' @ dst)))
      else
        (case with_suffix h src ''.tar'' of
           Inl e \<Rightarrow> ([], Some e)
         | Inr tar_path \<Rightarrow>
             (case tar_add h tar_path src (path_name h src) of
                Some e \<Rightarrow> ([TarAdd tar_path src (path_name h src)], Some e)
              | None \<Rightarrow>
                  (case read_bytes h tar_path of
                     Inl e \<Rightarrow>
                       ([TarAdd tar_path src (path_name h src), ReadFile tar_path], Some e)
                   | Inr data \<Rightarrow>
                       (let mkdir = ''mkdir -p '' @ path_parent h dst;
                            untar = ''tar -xf '' @ dst @ ''.tar -C '' @ path_parent h dst;
                            rm = ''rm '' @ dst @ ''.tar''
                        in case run_steps
                                  [(ExecRun (container_id c) mkdir, exec_run c mkdir),
                                   (PutArchive (container_id c) (dirname dst) data,
                                    put_archive c (dirname dst) data),
                                   (ExecRun (container_id c) untar, exec_run c untar),
                                   (Unlink tar_path, unlink h tar_path),
                                   (ExecRun (container_id c) rm, exec_run c rm)] of
                             (tr, r) \<Rightarrow>
                               ([TarAdd tar_path src (path_name h src), ReadFile tar_path] @ tr,
                                r))))))"

subsection \<open>Session identifiers\<close>

text \<open>
  The argument of \<^verbatim>\<open>get_session_id\<close> is any Python value. \<open>as_int\<close> is
  \<^verbatim>\<open>isinstance(length, int)\<close> together with the integer value: \<^verbatim>\<open>bool\<close> is a
  subclass of \<^verbatim>\<open>int\<close> in Python, with \<^verbatim>\<open>True == 1\<close> and \<^verbatim>\<open>False == 0\<close>. A
  float is kept as its mantissa and exponent; its value is never read.
\<close>

datatype pyval = PyInt int | PyBool bool | PyFloat int int | PyStr string | PyNone

fun as_int :: "pyval \<Rightarrow> int option" where
  "as_int (PyInt n) = Some n"
| "as_int (PyBool b) = Some (if b then 1 else 0)"
| "as_int v = None"

definition ascii_uppercase :: string where
  "ascii_uppercase = ''ABCDEFGHIJKLMNOPQRSTUVWXYZ''"

definition ascii_lowercase :: string where
  "ascii_lowercase = ''abcdefghijklmnopqrstuvwxyz''"

definition digits :: string where
  "digits = ''0123456789''"

text \<open>
  \<^verbatim>\<open>random_gen.choice(seq)\<close> is \<^verbatim>\<open>seq[i]\<close> for an index \<open>i\<close> below
  \<^verbatim>\<open>len(seq)\<close> that the system's entropy source picks. The source is a parameter,
  \<open>random_gen k\<close> being the raw value of the \<open>k\<close>-th draw; \<^verbatim>\<open>SystemRandom\<close>
  ignores its seed, so the timestamp and its hash do not reach the result.
\<close>

definition choice :: "(nat \<Rightarrow> nat) \<Rightarrow> nat \<Rightarrow> string \<Rightarrow> char" where
  "choice random_gen k seq = seq ! (random_gen k mod length seq)"

text \<open>
  The \<^verbatim>\<open>characters\<close> of the procedure: the empty string, extended by the three
  classes in turn.
\<close>

definition characters :: string where
  "characters = [] @ ascii_uppercase @ ascii_lowercase @ digits"

definition get_session_id :: "(nat \<Rightarrow> nat) \<Rightarrow> pyval \<Rightarrow> error + string" where
  "get_session_id random_gen len =
     (case as_int len of
        None \<Rightarrow> Inl (ValueError ''Length must be a positive integer.'')
      | Some n \<Rightarrow>
          if n \<le> 0 then Inl (ValueError ''Length must be a positive integer.'')
          else
            if characters = [] then
              Inl (ValueError
                ''At least one character set (uppercase, lowercase, digits) must be enabled.'')
            else Inr (map (\<lambda>k. choice random_gen k characters) [0..<nat n]))"

text \<open>Whether a Python value is a positive integer.\<close>

definition is_positive_int :: "pyval \<Rightarrow> bool" where
  "is_positive_int v = (case as_int v of None \<Rightarrow> False | Some n \<Rightarrow> 0 < n)"

subsection \<open>Concrete collaborators\<close>

text \<open>
  An engine that refuses every removal and every inspection, and one that answers both; a
  container whose graceful stop fails, and one that stops but cannot be removed; a host on
  which every local operation succeeds.
\<close>

definition failing_client :: client where
  "failing_client =
     \<lparr>images_remove = (\<lambda>image_id. Some (Raised ''conflict: image is in use'')),
      api_inspect_container = (\<lambda>container_id. Inl (Raised ''no such container''))\<rparr>"

definition stuck_container :: container where
  "stuck_container =
     \<lparr>container_id = ''4f2a'',
      container_name = ''sweb.eval.x'',
      container_stop = Some (Raised ''read timed out''),
      container_remove = None,
      exec_run = (\<lambda>cmd. None),
      put_archive = (\<lambda>path data. None)\<rparr>"

text \<open>An entropy source: the \<open>k\<close>-th draw is \<open>7 * k + 100\<close>.\<close>

definition lcg_draws :: "nat \<Rightarrow> nat" where
  "lcg_draws k = 7 * k + 100"

definition live_client :: client where
  "live_client =
     \<lparr>images_remove = (\<lambda>image_id. None),
      api_inspect_container =
        (\<lambda>container_id. Inr [''State'' \<mapsto> [''Pid'' \<mapsto> 4242]])\<rparr>"

definition pinned_container :: container where
  "pinned_container =
     \<lparr>container_id = ''9b1c'',
      container_name = ''sweb.eval.y'',
      container_stop = None,
      container_remove = Some (Raised ''removal of container is already in progress''),
      exec_run = (\<lambda>cmd. None),
      put_archive = (\<lambda>path data. None)\<rparr>"





definition plain_host :: host where
  "plain_host =
     \<lparr>os_kill = (\<lambda>pid. None),
      format_exc = (\<lambda>e. ''Traceback (most recent call last):''),
      with_suffix = (\<lambda>p suffix. Inr (p @ suffix)),
      path_name = (\<lambda>p. p),
      path_parent = dirname,
      tar_add = (\<lambda>tar_path src arcname. None),
      read_bytes = (\<lambda>p. Inr []),
      unlink = (\<lambda>p. None)\<rparr>"

section \<open>Properties\<close>

subsection \<open>The three prefixes exclude one another\<close>

lemma startswith_take:
  assumes "startswith s pre" and "n \<le> length pre"
  shows "take n s = take n pre"
proof -
  from assms(1) have "take (length pre) s = pre"
    by (simp add: startswith_def)
  then have "take n (take (length pre) s) = take n pre"
    by simp
  with assms(2) show ?thesis
    by (simp add: min_absorb1)
qed

lemma base_not_env: "startswith s ''sweb.base'' \<Longrightarrow> \<not> startswith s ''sweb.env''"
  using startswith_take [of s "''sweb.base''" 8] startswith_take [of s "''sweb.env''" 8]
  by auto

lemma base_not_eval: "startswith s ''sweb.base'' \<Longrightarrow> \<not> startswith s ''sweb.eval''"
  using startswith_take [of s "''sweb.base''" 6] startswith_take [of s "''sweb.eval''" 6]
  by auto

lemma env_not_eval: "startswith s ''sweb.env'' \<Longrightarrow> \<not> startswith s ''sweb.eval''"
  using startswith_take [of s "''sweb.env''" 7] startswith_take [of s "''sweb.eval''" 7]
  by auto

text \<open>
  C1. \<^verbatim>\<open>should_remove\<close> returns True exactly when the name starts with
  \<^verbatim>\<open>sweb.base\<close> and the cache level is \<^verbatim>\<open>none\<close>, or it starts with
  \<^verbatim>\<open>sweb.env\<close> and the cache level is \<^verbatim>\<open>none\<close> or \<^verbatim>\<open>base\<close>, or it starts
  with \<^verbatim>\<open>sweb.eval\<close> and the cache level is \<^verbatim>\<open>none\<close>, \<^verbatim>\<open>base\<close> or
  \<^verbatim>\<open>env\<close>, and in each case \<^verbatim>\<open>clean\<close> is set or the name is not among the prior
  images. A name with none of the three prefixes is never removed.
\<close>

theorem should_remove_iff:
  "(should_remove image_name cache clean prior_images \<longleftrightarrow>
      ((startswith image_name ''sweb.base'' \<and> cache = ''none'') \<or>
       (startswith image_name ''sweb.env'' \<and> cache \<in> {''none'', ''base''}) \<or>
       (startswith image_name ''sweb.eval'' \<and> cache \<in> {''none'', ''base'', ''env''})) \<and>
      (clean \<or> image_name \<notin> prior_images)) \<and>
   (\<not> startswith image_name ''sweb.base'' \<and> \<not> startswith image_name ''sweb.env'' \<and>
    \<not> startswith image_name ''sweb.eval'' \<longrightarrow>
      \<not> should_remove image_name cache clean prior_images)"
proof (cases "startswith image_name ''sweb.base''")
  case True
  then show ?thesis
    using base_not_env [of image_name] base_not_eval [of image_name]
    by (simp add: should_remove_def)
next
  case nb: False
  show ?thesis
  proof (cases "startswith image_name ''sweb.env''")
    case True
    then show ?thesis
      using nb env_not_eval [of image_name]
      by (simp add: should_remove_def)
  next
    case False
    with nb show ?thesis
      by (simp add: should_remove_def)
  qed
qed

theorem should_remove_iff_witness:
  "should_remove ''sweb.env.x'' ''base'' True {''sweb.env.x''} \<and>
   should_remove ''sweb.base.x'' ''none'' False {} \<and>
   \<not> should_remove ''sweb.base.x'' ''env'' False {''sweb.base.x''} \<and>
   \<not> startswith ''ubuntu:22.04'' ''sweb.base'' \<and> \<not> startswith ''ubuntu:22.04'' ''sweb.env'' \<and>
   \<not> startswith ''ubuntu:22.04'' ''sweb.eval'' \<and>
   \<not> should_remove ''ubuntu:22.04'' ''none'' True {}"
  using should_remove_iff [of "''sweb.env.x''" "''base''" True "{''sweb.env.x''}"]
        should_remove_iff [of "''sweb.base.x''" "''none''" False "{}"]
        should_remove_iff [of "''sweb.base.x''" "''env''" False "{''sweb.base.x''}"]
        should_remove_iff [of "''ubuntu:22.04''" "''none''" True "{}"]
  by (simp add: startswith_def)

text \<open>
  C2 (as the specification states it, refuted). With \<^verbatim>\<open>clean=False\<close> and the image
  among the prior images, the guard \<^verbatim>\<open>clean or not existed_before\<close> is false, so
  neither call returns True.
\<close>

theorem should_remove_prior_counterexample:
  "\<not> (should_remove ''sweb.env.x'' ''base'' False {''sweb.env.x''} = True \<and>
      should_remove ''sweb.eval.x'' ''env'' False {''sweb.eval.x''} = True)"
  by (simp add: should_remove_def startswith_def)

text \<open>
  C2 (amended). Both calls return False, because the image existed before the run and
  \<^verbatim>\<open>clean\<close> is False, although its tier is within the removal set of the cache
  level: the same calls with \<^verbatim>\<open>clean=True\<close>, or with an empty set of prior images,
  return True.
\<close>

theorem should_remove_prior_retained:
  "should_remove ''sweb.env.x'' ''base'' False {''sweb.env.x''} = False \<and>
   should_remove ''sweb.eval.x'' ''env'' False {''sweb.eval.x''} = False \<and>
   should_remove ''sweb.env.x'' ''base'' True {''sweb.env.x''} = True \<and>
   should_remove ''sweb.eval.x'' ''env'' True {''sweb.eval.x''} = True \<and>
   should_remove ''sweb.env.x'' ''base'' False {} = True \<and>
   should_remove ''sweb.eval.x'' ''env'' False {} = True"
  by (simp add: should_remove_def startswith_def)

subsection \<open>Image cleanup\<close>

lemma outputs_append: "outputs (xs @ ys) = outputs xs @ outputs ys"
  by (simp add: outputs_def)

lemma outputs_log_quiet: "outputs (log_info Quiet x) = []" "outputs (log_error Quiet x) = []"
  by (simp_all add: outputs_def)

lemma raise_error_iff: "raise_error logger \<longleftrightarrow> logger \<noteq> RealLogger"
  by (cases logger) simp_all

text \<open>
  C4 (as the specification states it, refuted). Without a logger the failure message is
  not printed: the handler re-raises before it reaches \<^verbatim>\<open>log_error\<close>, and all that
  was printed is the progress line.
\<close>

theorem cleanup_image_no_logger_counterexample:
  "outputs (fst (cleanup_image plain_host failing_client ''img'' True NoLogger)) =
     [Print ''Attempting to remove image img...''] \<and>
   Print (''Failed to remove image img: conflict: image is in use'' @ [CHR 0x0A] @
          ''Traceback (most recent call last):'')
     \<notin> set (fst (cleanup_image plain_host failing_client ''img'' True NoLogger))"
  by (simp add: cleanup_image_def failing_client_def plain_host_def outputs_def)

text \<open>
  C4 (amended). When the removal of the image fails: without a logger only the progress
  line is printed and the error is re-raised; in quiet mode nothing is written and the
  error is re-raised; with a logger object the progress line and the failure message both
  go to the logger and the procedure returns. The failure does not propagate exactly in
  the mode with a logger object.
\<close>

theorem cleanup_image_failure_modes:
  "images_remove client image_id = Some e \<Longrightarrow>
   cleanup_image h client image_id True NoLogger =
     ([Print (''Attempting to remove image '' @ image_id @ ''...''), ImagesRemove image_id],
      Some e) \<and>
   cleanup_image h client image_id True Quiet = ([ImagesRemove image_id], Some e) \<and>
   cleanup_image h client image_id True RealLogger =
     ([LoggerInfo (''Attempting to remove image '' @ image_id @ ''...''), ImagesRemove image_id,
       LoggerInfo (''Failed to remove image '' @ image_id @ '': '' @ str_error e @
                   [CHR 0x0A] @ format_exc h e)],
      None) \<and>
   (snd (cleanup_image h client image_id True logger) = None \<longleftrightarrow> logger = RealLogger)"
  by (cases logger) (simp_all add: cleanup_image_def)

theorem cleanup_image_failure_modes_witness:
  "images_remove failing_client ''img'' = Some (Raised ''conflict: image is in use'') \<and>
   cleanup_image plain_host failing_client ''img'' True NoLogger =
     ([Print ''Attempting to remove image img...'', ImagesRemove ''img''],
      Some (Raised ''conflict: image is in use'')) \<and>
   cleanup_image plain_host failing_client ''img'' True Quiet =
     ([ImagesRemove ''img''], Some (Raised ''conflict: image is in use'')) \<and>
   snd (cleanup_image plain_host failing_client ''img'' True RealLogger) = None"
proof -
  have h: "images_remove failing_client ''img'' = Some (Raised ''conflict: image is in use'')"
    by (simp add: failing_client_def)
  show ?thesis
    using h cleanup_image_failure_modes [OF h, of plain_host RealLogger]
    by simp
qed

text \<open>
  C10. With \<^verbatim>\<open>rm_image=False\<close> the procedure makes no call to the engine, writes
  nothing and returns, for every client, image and logging mode.
\<close>

theorem cleanup_image_not_requested:
  "cleanup_image h client image_id False logger = ([], None)"
  by (simp add: cleanup_image_def)

subsection \<open>Container cleanup\<close>

text \<open>
  C9. With a null container handle the procedure returns at once: no event, no error,
  for every client and logging mode.
\<close>

theorem cleanup_container_null:
  "cleanup_container h client None logger = ([], None)"
  by (simp add: cleanup_container_def)

lemma outputs_force_kill_quiet: "outputs (fst (force_kill h client c Quiet)) = []"
  by (simp add: force_kill_def outputs_def Let_def split: sum.splits option.splits)

lemma outputs_stop_or_kill_quiet: "outputs (fst (stop_or_kill h client c Quiet)) = []"
proof (cases "force_kill h client c Quiet")
  case (Pair tk r)
  with outputs_force_kill_quiet [of h client c] have "filter is_output tk = []"
    by (simp add: outputs_def)
  with Pair show ?thesis
    by (simp add: stop_or_kill_def outputs_def Let_def split: option.splits)
qed

lemma outputs_cleanup_container_quiet:
  "outputs (fst (cleanup_container h client container Quiet)) = []"
proof (cases container)
  case None
  then show ?thesis
    by (simp add: cleanup_container_def outputs_def)
next
  case (Some c)
  show ?thesis
  proof (cases "stop_or_kill h client c Quiet")
    case (Pair tr r)
    with outputs_stop_or_kill_quiet [of h client c] have "filter is_output tr = []"
      by (simp add: outputs_def)
    with Pair Some show ?thesis
      by (simp add: cleanup_container_def outputs_def Let_def split: option.splits)
  qed
qed

lemma outputs_cleanup_image_quiet:
  "outputs (fst (cleanup_image h client image_id rm_image Quiet)) = []"
  by (simp add: cleanup_image_def outputs_def Let_def split: option.splits)

lemma snd_stop_or_kill:
  "snd (stop_or_kill h client c logger) =
     (case container_stop c of
        None \<Rightarrow> None
      | Some e \<Rightarrow> if raise_error logger then snd (force_kill h client c logger) else None)"
  by (cases "force_kill h client c logger")
     (auto simp add: stop_or_kill_def Let_def split: option.splits)

lemma snd_cleanup_container:
  "snd (cleanup_container h client (Some c) logger) =
     (case snd (stop_or_kill h client c logger) of
        Some e2 \<Rightarrow> Some e2
      | None \<Rightarrow> if raise_error logger then container_remove c else None)"
  by (cases "stop_or_kill h client c logger")
     (auto simp add: cleanup_container_def Let_def split: option.splits)

text \<open>
  C5 (as the specification states it, refuted). In quiet mode a failed image removal is
  raised to the caller, and so is a failed kill fallback of the container cleanup.
\<close>

theorem cleanup_quiet_counterexample:
  "snd (cleanup_image plain_host failing_client ''img'' True Quiet) =
     Some (Raised ''conflict: image is in use'') \<and>
   snd (cleanup_container plain_host failing_client (Some stuck_container) Quiet) =
     Some (Raised ''no such container'')"
  by (simp add: cleanup_image_def cleanup_container_def stop_or_kill_def force_kill_def
                failing_client_def stuck_container_def Let_def)

text \<open>
  C5 (amended). In quiet mode neither procedure writes anything, whatever fails. A failed
  image removal, a failed kill fallback and a failed container removal are re-raised to
  the caller; only a failed graceful stop is swallowed, when the kill fallback that
  follows it does not raise.
\<close>

theorem cleanup_quiet_silent_and_raising:
  "outputs (fst (cleanup_image h client image_id rm_image Quiet)) = [] \<and>
   outputs (fst (cleanup_container h client container Quiet)) = [] \<and>
   (images_remove client image_id = Some e \<longrightarrow>
      snd (cleanup_image h client image_id True Quiet) = Some e) \<and>
   (container_stop c = Some e \<and> snd (force_kill h client c Quiet) = Some e2 \<longrightarrow>
      snd (cleanup_container h client (Some c) Quiet) = Some e2) \<and>
   (container_stop c = Some e \<and> snd (force_kill h client c Quiet) = None \<longrightarrow>
      snd (cleanup_container h client (Some c) Quiet) = container_remove c) \<and>
   (container_stop c = None \<longrightarrow>
      snd (cleanup_container h client (Some c) Quiet) = container_remove c)"
proof (intro conjI)
  show "outputs (fst (cleanup_image h client image_id rm_image Quiet)) = []"
    by (rule outputs_cleanup_image_quiet)
  show "outputs (fst (cleanup_container h client container Quiet)) = []"
    by (rule outputs_cleanup_container_quiet)
  show "images_remove client image_id = Some e \<longrightarrow>
          snd (cleanup_image h client image_id True Quiet) = Some e"
    by (simp add: cleanup_image_def Let_def)
  show "container_stop c = Some e \<and> snd (force_kill h client c Quiet) = Some e2 \<longrightarrow>
          snd (cleanup_container h client (Some c) Quiet) = Some e2"
    by (simp add: snd_cleanup_container snd_stop_or_kill)
  show "container_stop c = Some e \<and> snd (force_kill h client c Quiet) = None \<longrightarrow>
          snd (cleanup_container h client (Some c) Quiet) = container_remove c"
    by (simp add: snd_cleanup_container snd_stop_or_kill)
  show "container_stop c = None \<longrightarrow>
          snd (cleanup_container h client (Some c) Quiet) = container_remove c"
    by (simp add: snd_cleanup_container snd_stop_or_kill)
qed

theorem cleanup_quiet_silent_and_raising_witness:
  "images_remove failing_client ''img'' = Some (Raised ''conflict: image is in use'') \<and>
   snd (cleanup_image plain_host failing_client ''img'' True Quiet) =
     Some (Raised ''conflict: image is in use'') \<and>
   container_stop stuck_container = Some (Raised ''read timed out'') \<and>
   snd (force_kill plain_host failing_client stuck_container Quiet) =
     Some (Raised ''no such container'') \<and>
   snd (cleanup_container plain_host failing_client (Some stuck_container) Quiet) =
     Some (Raised ''no such container'') \<and>
   snd (force_kill plain_host live_client stuck_container Quiet) = None \<and>
   snd (cleanup_container plain_host live_client (Some stuck_container) Quiet) = None \<and>
   container_stop pinned_container = None \<and>
   snd (cleanup_container plain_host live_client (Some pinned_container) Quiet) =
     Some (Raised ''removal of container is already in progress'')"
proof -
  have img: "images_remove failing_client ''img'' = Some (Raised ''conflict: image is in use'')"
    by (simp add: failing_client_def)
  have stop: "container_stop stuck_container = Some (Raised ''read timed out'')"
    by (simp add: stuck_container_def)
  have kill_fails: "snd (force_kill plain_host failing_client stuck_container Quiet) =
      Some (Raised ''no such container'')"
    by (simp add: force_kill_def failing_client_def)
  have kill_works: "snd (force_kill plain_host live_client stuck_container Quiet) = None"
    by (simp add: force_kill_def live_client_def plain_host_def Let_def)
  have removed: "container_remove stuck_container = None"
    by (simp add: stuck_container_def)
  have stops: "container_stop pinned_container = None"
    and pinned: "container_remove pinned_container =
      Some (Raised ''removal of container is already in progress'')"
    by (simp_all add: pinned_container_def)
  show ?thesis
    using img stop kill_fails kill_works removed stops pinned
      cleanup_quiet_silent_and_raising
        [where h = plain_host and client = failing_client and image_id = "''img''"
           and c = stuck_container and e = "Raised ''conflict: image is in use''"
           and ?e2.0 = "Raised ''no such container''"]
      cleanup_quiet_silent_and_raising
        [where h = plain_host and client = failing_client and c = stuck_container
           and e = "Raised ''read timed out''" and ?e2.0 = "Raised ''no such container''"]
      cleanup_quiet_silent_and_raising
        [where h = plain_host and client = live_client and c = stuck_container
           and e = "Raised ''read timed out''"]
      cleanup_quiet_silent_and_raising
        [where h = plain_host and client = live_client and c = pinned_container]
    by simp
qed

lemma force_kill_no_removal:
  "ContainerRemove x \<notin> set (fst (force_kill h client c logger))"
  by (cases logger) (simp_all add: force_kill_def Let_def split: sum.splits option.splits)

lemma stop_or_kill_no_removal:
  "ContainerRemove x \<notin> set (fst (stop_or_kill h client c logger))"
proof (cases "force_kill h client c logger")
  case (Pair tk r)
  with force_kill_no_removal [of x h client c logger] have "ContainerRemove x \<notin> set tk"
    by simp
  with Pair show ?thesis
    by (cases logger) (simp_all add: stop_or_kill_def Let_def split: option.splits)
qed

lemma removal_attempted_iff:
  "ContainerRemove (container_id c) \<in> set (fst (cleanup_container h client (Some c) logger)) \<longleftrightarrow>
     snd (stop_or_kill h client c logger) = None"
proof (cases "stop_or_kill h client c logger")
  case (Pair tr r)
  with stop_or_kill_no_removal [of "container_id c" h client c logger]
  have "ContainerRemove (container_id c) \<notin> set tr"
    by simp
  with Pair show ?thesis
    by (simp add: cleanup_container_def Let_def split: option.splits)
qed

text \<open>
  C6 (as the specification states it, refuted). The graceful stop fails, the kill
  fallback fails too, and without a logger (or in quiet mode) the error of the fallback
  is re-raised before the removal: the container is never removed.
\<close>

theorem cleanup_container_removal_counterexample:
  "ContainerRemove ''4f2a'' \<notin>
     set (fst (cleanup_container plain_host failing_client (Some stuck_container) NoLogger)) \<and>
   ContainerRemove ''4f2a'' \<notin>
     set (fst (cleanup_container plain_host failing_client (Some stuck_container) Quiet)) \<and>
   snd (cleanup_container plain_host failing_client (Some stuck_container) NoLogger) =
     Some (Raised ''no such container'')"
  by (simp add: cleanup_container_def stop_or_kill_def force_kill_def
                failing_client_def stuck_container_def Let_def)

text \<open>
  C6 (amended). With a container handle, the force-removal is attempted exactly when the
  graceful stop succeeded, or the kill fallback ended without an exception, or the logger
  is a logger object (the mode that swallows the failure of the fallback). When the
  graceful stop and the kill fallback both fail without a logger or in quiet mode, the
  error of the fallback is re-raised to the caller and no removal is attempted.
\<close>

theorem cleanup_container_removal_attempted:
  "(ContainerRemove (container_id c) \<in> set (fst (cleanup_container h client (Some c) logger)) \<longleftrightarrow>
      container_stop c = None \<or> snd (force_kill h client c logger) = None \<or>
      logger = RealLogger) \<and>
   (container_stop c = Some e \<and> snd (force_kill h client c logger) = Some e2 \<and>
    logger \<noteq> RealLogger \<longrightarrow>
      snd (cleanup_container h client (Some c) logger) = Some e2 \<and>
      (\<forall>x. ContainerRemove x \<notin> set (fst (cleanup_container h client (Some c) logger))))"
proof (intro conjI impI allI)
  show "ContainerRemove (container_id c) \<in> set (fst (cleanup_container h client (Some c) logger)) \<longleftrightarrow>
      container_stop c = None \<or> snd (force_kill h client c logger) = None \<or>
      logger = RealLogger"
    by (cases "container_stop c")
       (simp_all add: removal_attempted_iff snd_stop_or_kill raise_error_iff)
next
  assume f: "container_stop c = Some e \<and> snd (force_kill h client c logger) = Some e2 \<and>
    logger \<noteq> RealLogger"
  then show "snd (cleanup_container h client (Some c) logger) = Some e2"
    by (simp add: snd_cleanup_container snd_stop_or_kill raise_error_iff)
next
  fix x
  assume f: "container_stop c = Some e \<and> snd (force_kill h client c logger) = Some e2 \<and>
    logger \<noteq> RealLogger"
  then have raised: "snd (stop_or_kill h client c logger) = Some e2"
    by (simp add: snd_stop_or_kill raise_error_iff)
  show "ContainerRemove x \<notin> set (fst (cleanup_container h client (Some c) logger))"
  proof (cases "stop_or_kill h client c logger")
    case (Pair tr r)
    with raised have "r = Some e2"
      by simp
    with Pair stop_or_kill_no_removal [of x h client c logger] show ?thesis
      by (simp add: cleanup_container_def)
  qed
qed

theorem cleanup_container_removal_attempted_witness:
  "ContainerRemove ''4f2a'' \<in>
     set (fst (cleanup_container plain_host live_client (Some stuck_container) NoLogger)) \<and>
   ContainerRemove ''4f2a'' \<in>
     set (fst (cleanup_container plain_host failing_client (Some stuck_container) RealLogger)) \<and>
   ContainerRemove ''9b1c'' \<in>
     set (fst (cleanup_container plain_host failing_client (Some pinned_container) Quiet)) \<and>
   container_stop stuck_container = Some (Raised ''read timed out'') \<and>
   snd (force_kill plain_host failing_client stuck_container NoLogger) =
     Some (Raised ''no such container'') \<and>
   NoLogger \<noteq> RealLogger \<and>
   snd (cleanup_container plain_host failing_client (Some stuck_container) NoLogger) =
     Some (Raised ''no such container'') \<and>
   ContainerRemove ''4f2a'' \<notin>
     set (fst (cleanup_container plain_host failing_client (Some stuck_container) NoLogger))"
proof -
  have kill_works: "snd (force_kill plain_host live_client stuck_container NoLogger) = None"
    by (simp add: force_kill_def live_client_def plain_host_def Let_def)
  have kill_fails: "snd (force_kill plain_host failing_client stuck_container NoLogger) =
      Some (Raised ''no such container'')"
    by (simp add: force_kill_def failing_client_def)
  have stop_fails: "container_stop stuck_container = Some (Raised ''read timed out'')"
    by (simp add: stuck_container_def)
  have stops: "container_stop pinned_container = None"
    by (simp add: pinned_container_def)
  have ids: "container_id stuck_container = ''4f2a''" "container_id pinned_container = ''9b1c''"
    by (simp_all add: stuck_container_def pinned_container_def)
  show ?thesis
    using kill_works kill_fails stop_fails stops ids
      cleanup_container_removal_attempted
        [where c = stuck_container and h = plain_host and client = live_client
           and logger = NoLogger]
      cleanup_container_removal_attempted
        [where c = stuck_container and h = plain_host and client = failing_client
           and logger = RealLogger]
      cleanup_container_removal_attempted
        [where c = pinned_container and h = plain_host and client = failing_client
           and logger = Quiet]
      cleanup_container_removal_attempted
        [where c = stuck_container and h = plain_host and client = failing_client
           and logger = NoLogger and e = "Raised ''read timed out''"
           and ?e2.0 = "Raised ''no such container''"]
    by simp
qed

subsection \<open>Execution with a timeout\<close>











subsection \<open>Copying a file into a container\<close>

text \<open>The directory part of a path is empty exactly when the path has no slash.\<close>

lemma dirname_empty_iff: "dirname p = [] \<longleftrightarrow> CHR ''/'' \<notin> set p"
proof (cases "CHR ''/'' \<in> set p")
  case False
  then show ?thesis
    by (simp add: dirname_def rfind_def)
next
  case True
  define n where "n = length (takeWhile (\<lambda>x. x \<noteq> CHR ''/'') (rev p))"
  define head where "head = take (length p - n) p"
  define d where "d = dropWhile (\<lambda>x. x \<noteq> CHR ''/'') (rev p)"
  have "n + length d = length (rev p)"
    unfolding n_def d_def by (metis length_append takeWhile_dropWhile_id)
  moreover from True have "d \<noteq> []"
    by (simp add: d_def dropWhile_eq_Nil_conv)
  then obtain x xs where "d = x # xs"
    by (cases d) auto
  ultimately have "n < length p"
    by simp
  then have "head \<noteq> []"
    by (auto simp add: head_def)
  have nat: "nat (rfind p CHR ''/'' + 1) = length p - n"
    using True \<open>n < length p\<close> by (simp add: rfind_def n_def)
  have "rstrip head CHR ''/'' = [] \<longleftrightarrow> head = replicate (length head) CHR ''/''"
  proof
    assume "rstrip head CHR ''/'' = []"
    then have "\<forall>x\<in>set head. x = CHR ''/''"
      by (simp add: rstrip_def dropWhile_eq_Nil_conv)
    then show "head = replicate (length head) CHR ''/''"
      by (simp add: replicate_length_same)
  next
    assume "head = replicate (length head) CHR ''/''"
    then have "\<forall>x\<in>set head. x = CHR ''/''"
      by (metis in_set_replicate)
    then show "rstrip head CHR ''/'' = []"
      by (simp add: rstrip_def dropWhile_eq_Nil_conv)
  qed
  moreover have "dirname p =
      (if head \<noteq> [] \<and> head \<noteq> replicate (length head) CHR ''/''
       then rstrip head CHR ''/'' else head)"
    unfolding dirname_def Let_def nat head_def ..
  ultimately have "dirname p \<noteq> []"
    using \<open>head \<noteq> []\<close> by (cases "head = replicate (length head) CHR ''/''") simp_all
  with True show ?thesis
    by simp
qed

text \<open>
  C8. When the directory part of the destination is empty, as for \<^verbatim>\<open>file.txt\<close>, the
  procedure raises \<^verbatim>\<open>ValueError\<close> and has caused no event: no call on the container,
  no local archive.
\<close>

theorem copy_to_container_empty_parent:
  "dirname dst = [] \<Longrightarrow>
   copy_to_container h c src dst =
     ([], Some (ValueError
                  (''Destination path parent directory cannot be empty!, dst: '' @ dst)))"
  by (simp add: copy_to_container_def)

theorem copy_to_container_empty_parent_witness:
  "dirname ''file.txt'' = [] \<and>
   copy_to_container plain_host stuck_container ''/tmp/patch.diff'' ''file.txt'' =
     ([], Some (ValueError
                  ''Destination path parent directory cannot be empty!, dst: file.txt''))"
proof -
  have h: "dirname ''file.txt'' = []"
    by (simp add: dirname_empty_iff)
  show ?thesis
    using h copy_to_container_empty_parent
              [OF h, of plain_host stuck_container "''/tmp/patch.diff''"]
    by simp
qed

subsection \<open>Session identifiers\<close>

lemma characters_nonempty: "characters \<noteq> []"
  by (simp add: characters_def ascii_uppercase_def)

lemma choice_in_set: "seq \<noteq> [] \<Longrightarrow> choice random_gen k seq \<in> set seq"
  by (simp add: choice_def)

lemma length_characters: "length characters = 62"
  by (simp add: characters_def ascii_uppercase_def ascii_lowercase_def digits_def)

lemma distinct_characters: "distinct characters"
  by (simp add: characters_def ascii_uppercase_def ascii_lowercase_def digits_def)

text \<open>
  C7. For a positive integer \<open>n\<close> the result is a string of exactly \<open>n\<close> characters,
  each of them one of the 62 distinct characters of the alphabet (upper case, lower case,
  digits), whatever the entropy source draws; for every argument that is not a positive
  integer the call raises \<^verbatim>\<open>ValueError\<close>.
\<close>

theorem get_session_id_spec:
  "(0 < n \<longrightarrow>
      (\<exists>s. get_session_id random_gen (PyInt n) = Inr s \<and> int (length s) = n \<and>
           (\<forall>ch \<in> set s. ch \<in> set (ascii_uppercase @ ascii_lowercase @ digits)))) \<and>
   (\<not> is_positive_int v \<longrightarrow>
      get_session_id random_gen v = Inl (ValueError ''Length must be a positive integer.'')) \<and>
   length (ascii_uppercase @ ascii_lowercase @ digits) = 62 \<and>
   distinct (ascii_uppercase @ ascii_lowercase @ digits)"
proof (intro conjI impI)
  assume "0 < n"
  let ?s = "map (\<lambda>k. choice random_gen k characters) [0..<nat n]"
  from \<open>0 < n\<close> have "get_session_id random_gen (PyInt n) = Inr ?s"
    by (simp add: get_session_id_def characters_nonempty)
  moreover from \<open>0 < n\<close> have "int (length ?s) = n"
    by simp
  moreover have "\<forall>ch \<in> set ?s. ch \<in> set (ascii_uppercase @ ascii_lowercase @ digits)"
    using choice_in_set [OF characters_nonempty, of random_gen]
    by (auto simp add: characters_def)
  ultimately show "\<exists>s. get_session_id random_gen (PyInt n) = Inr s \<and> int (length s) = n \<and>
      (\<forall>ch \<in> set s. ch \<in> set (ascii_uppercase @ ascii_lowercase @ digits))"
    by blast
next
  assume "\<not> is_positive_int v"
  then show "get_session_id random_gen v = Inl (ValueError ''Length must be a positive integer.'')"
    by (auto simp add: is_positive_int_def get_session_id_def split: option.splits)
next
  show "length (ascii_uppercase @ ascii_lowercase @ digits) = 62"
    using length_characters by (simp add: characters_def)
next
  show "distinct (ascii_uppercase @ ascii_lowercase @ digits)"
    using distinct_characters by (simp add: characters_def)
qed

theorem get_session_id_spec_witness:
  "(0::int) < 8 \<and>
   get_session_id lcg_draws (PyInt 8) = Inr ''mt07ELSZ'' \<and>
   \<not> is_positive_int (PyInt 0) \<and>
   get_session_id lcg_draws (PyInt 0) = Inl (ValueError ''Length must be a positive integer.'') \<and>
   \<not> is_positive_int (PyInt (- 3)) \<and>
   get_session_id lcg_draws (PyInt (- 3)) =
     Inl (ValueError ''Length must be a positive integer.'') \<and>
   \<not> is_positive_int (PyStr ''8'') \<and>
   get_session_id lcg_draws (PyStr ''8'') =
     Inl (ValueError ''Length must be a positive integer.'')"
proof -
  have run: "get_session_id lcg_draws (PyInt 8) = Inr ''mt07ELSZ''"
    by (simp add: get_session_id_def characters_def ascii_uppercase_def ascii_lowercase_def
                  digits_def choice_def lcg_draws_def upt_conv_Cons)
  have not_pos: "\<not> is_positive_int (PyInt 0)" "\<not> is_positive_int (PyInt (- 3))"
      "\<not> is_positive_int (PyStr ''8'')"
    by (simp_all add: is_positive_int_def)
  show ?thesis
    using run not_pos
      get_session_id_spec [of 8 lcg_draws "PyInt 0"]
      get_session_id_spec [of 8 lcg_draws "PyInt (- 3)"]
      get_session_id_spec [of 8 lcg_draws "PyStr ''8''"]
    by simp
qed

end
